theory Spec2Isabelle
  imports Main "HOL-Library.AList" "HOL-Library.Char_ord" "HOL-Library.List_Lexorder"
begin

section \<open>Data model of package toolsets\<close>

text \<open>
  The descriptor \<open>mcp.Tool\<close> comes from the MCP library; the code under study reads two of
  its fields only, \<open>Name\<close> and \<open>Description\<close>. A handler is a closure that this code
  stores and passes on without ever calling or inspecting it, so it is a label here.
\<close>

record Tool =
  Name :: string
  Description :: string

datatype ToolHandlerFunc = ToolHandlerFunc string

record ServerTool =
  Tool :: Tool
  Handler :: ToolHandlerFunc

datatype mcpResourceTemplate = mcpResourceTemplate string

datatype ResourceTemplateHandlerFunc = ResourceTemplateHandlerFunc string

record ResourceTemplate =
  templateResource :: mcpResourceTemplate
  handler :: ResourceTemplateHandlerFunc

definition NewResourceTemplate ::
    "mcpResourceTemplate \<Rightarrow> ResourceTemplateHandlerFunc \<Rightarrow> ResourceTemplate" where
  "NewResourceTemplate tr h = \<lparr>templateResource = tr, handler = h\<rparr>"

definition NewServerTool :: "Tool \<Rightarrow> ToolHandlerFunc \<Rightarrow> ServerTool" where
  "NewServerTool tool h = \<lparr>Tool = tool, Handler = h\<rparr>"

text \<open>A Go slice is a list; the nil slice and the empty slice are both \<open>[]\<close>.\<close>

record Toolset =
  Name :: string
  Description :: string
  Enabled :: bool
  readOnly :: bool
  writeTools :: "ServerTool list"
  readTools :: "ServerTool list"
  resourceTemplates :: "ResourceTemplate list"

subsection \<open>The host server, seen through the calls made on it\<close>

text \<open>
  \<open>server.MCPServer\<close> is an external collaborator. The code calls three of its methods
  and never reads it back, so the server is the sequence of calls it has received, oldest
  first.
\<close>

datatype ServerCall =
    CallAddTool Tool ToolHandlerFunc
  | CallAddTools "ServerTool list"
  | CallAddResourceTemplate mcpResourceTemplate ResourceTemplateHandlerFunc

type_synonym MCPServer = "ServerCall list"

definition AddTool :: "Tool \<Rightarrow> ToolHandlerFunc \<Rightarrow> MCPServer \<Rightarrow> MCPServer" where
  "AddTool tool h s = s @ [CallAddTool tool h]"

definition AddTools :: "ServerTool list \<Rightarrow> MCPServer \<Rightarrow> MCPServer" where
  "AddTools tools s = s @ [CallAddTools tools]"

definition AddResourceTemplate ::
    "mcpResourceTemplate \<Rightarrow> ResourceTemplateHandlerFunc \<Rightarrow> MCPServer \<Rightarrow> MCPServer" where
  "AddResourceTemplate tr h s = s @ [CallAddResourceTemplate tr h]"

subsection \<open>Methods of Toolset\<close>

text \<open>
  Each method has a pointer receiver; here it takes the value of the object and returns
  the new value (methods that only read return what the Go method returns). Go's
  \<open>append(xs, ys...)\<close> yields the elements of \<open>xs\<close> followed by those of \<open>ys\<close>; it
  may store them in spare capacity behind \<open>xs\<close>, which changes neither \<open>xs\<close> nor any
  field of the Toolset.
\<close>

definition GetActiveTools :: "Toolset \<Rightarrow> ServerTool list" where
  "GetActiveTools t =
     (if Enabled t then
        (if Toolset.readOnly t then readTools t
         else readTools t @ writeTools t)
      else [])"

definition GetAvailableTools :: "Toolset \<Rightarrow> ServerTool list" where
  "GetAvailableTools t =
     (if Toolset.readOnly t then readTools t
      else readTools t @ writeTools t)"

definition RegisterTools :: "Toolset \<Rightarrow> MCPServer \<Rightarrow> MCPServer" where
  "RegisterTools t s =
     (if \<not> Enabled t then s
      else
        let s1 = fold (\<lambda>tool. AddTool (Tool tool) (Handler tool)) (readTools t) s;
            s2 = (if \<not> Toolset.readOnly t
                  then fold (\<lambda>tool. AddTool (Tool tool) (Handler tool)) (writeTools t) s1
                  else s1)
        in fold (\<lambda>resource. AddResourceTemplate (templateResource resource) (handler resource))
             (resourceTemplates t) s2)"

definition SetReadOnly :: "Toolset \<Rightarrow> Toolset" where
  "SetReadOnly t = t\<lparr>Toolset.readOnly := True\<rparr>"

definition AddWriteTools :: "ServerTool list \<Rightarrow> Toolset \<Rightarrow> Toolset" where
  "AddWriteTools tools t =
     (if \<not> Toolset.readOnly t then t\<lparr>writeTools := writeTools t @ tools\<rparr> else t)"

definition AddReadTools :: "ServerTool list \<Rightarrow> Toolset \<Rightarrow> Toolset" where
  "AddReadTools tools t = t\<lparr>readTools := readTools t @ tools\<rparr>"

definition AddTemplateResources :: "ResourceTemplate list \<Rightarrow> Toolset \<Rightarrow> Toolset" where
  "AddTemplateResources resources t = t\<lparr>resourceTemplates := resourceTemplates t @ resources\<rparr>"

definition NewToolset :: "string \<Rightarrow> string \<Rightarrow> Toolset" where
  "NewToolset name description =
     \<lparr>Toolset.Name = name, Description = description, Enabled = False, readOnly = False,
      writeTools = [], readTools = [], resourceTemplates = []\<rparr>"

text \<open>
  What a client of the package can do to one Toolset: call one of its methods, or assign
  the exported field \<open>Enabled\<close> (the tests and the dynamic handler do).
\<close>

datatype ToolsetOp =
    OpSetReadOnly
  | OpAddWriteTools "ServerTool list"
  | OpAddReadTools "ServerTool list"
  | OpAddTemplateResources "ResourceTemplate list"
  | OpAssignEnabled bool

fun applyOp :: "ToolsetOp \<Rightarrow> Toolset \<Rightarrow> Toolset" where
  "applyOp OpSetReadOnly t = SetReadOnly t"
| "applyOp (OpAddWriteTools tools) t = AddWriteTools tools t"
| "applyOp (OpAddReadTools tools) t = AddReadTools tools t"
| "applyOp (OpAddTemplateResources rs) t = AddTemplateResources rs t"
| "applyOp (OpAssignEnabled b) t = t\<lparr>Enabled := b\<rparr>"

section \<open>ToolsetGroup and the objects it points to\<close>

text \<open>
  \<open>ToolsetGroup.Toolsets\<close> is a Go map from names to pointers to Toolset objects. Several
  names may hold the same pointer, and a method that enables a toolset writes through the
  pointer, so the objects live in a store indexed by address and the map holds addresses.
  A key that is absent from the map yields the nil pointer in Go; here the lookup yields
  \<open>None\<close>. The map itself never holds nil: AddToolset dereferences its argument before
  storing it.
\<close>

type_synonym ref = nat

record ToolsetGroup =
  Toolsets :: "string \<rightharpoonup> ref"
  everythingOn :: bool
  readOnly :: bool

text \<open>
  The part of the process state that this code reads and writes: the Toolset objects, the
  next free address, the group the handlers are closed over, and the host server.
\<close>

record World =
  heap :: "ref \<Rightarrow> Toolset"
  nextRef :: ref
  tsg :: ToolsetGroup
  mcpServer :: MCPServer

definition newObject :: "Toolset \<Rightarrow> World \<Rightarrow> ref \<times> World" where
  "newObject v w =
     (nextRef w, w\<lparr>heap := (heap w)(nextRef w := v), nextRef := Suc (nextRef w)\<rparr>)"

definition NewToolsetGroup :: "bool \<Rightarrow> ToolsetGroup" where
  "NewToolsetGroup ro = \<lparr>Toolsets = Map.empty, everythingOn = False, readOnly = ro\<rparr>"

definition AddToolset :: "ref \<Rightarrow> World \<Rightarrow> World" where
  "AddToolset ts w =
     (let w1 = (if ToolsetGroup.readOnly (tsg w)
                then w\<lparr>heap := (heap w)(ts := SetReadOnly (heap w ts))\<rparr>
                else w)
      in w1\<lparr>tsg := (tsg w1)\<lparr>Toolsets := (Toolsets (tsg w1))(Toolset.Name (heap w1 ts) \<mapsto> ts)\<rparr>\<rparr>)"

definition IsEnabled :: "World \<Rightarrow> string \<Rightarrow> bool" where
  "IsEnabled w name =
     (if everythingOn (tsg w) then True
      else (case Toolsets (tsg w) name of
              None \<Rightarrow> False
            | Some feature \<Rightarrow> Enabled (heap w feature)))"

text \<open>
  An \<open>error\<close> of Go is its message; the methods below return it beside the state, which
  exists whether or not the call failed.
\<close>

definition EnableToolset :: "string \<Rightarrow> World \<Rightarrow> string option \<times> World" where
  "EnableToolset name w =
     (if name = ''all'' then (None, w\<lparr>tsg := (tsg w)\<lparr>everythingOn := True\<rparr>\<rparr>)
      else (case Toolsets (tsg w) name of
              None \<Rightarrow> (Some (''toolset '' @ name @ '' does not exist''), w)
            | Some toolset \<Rightarrow>
                (None,
                 w\<lparr>heap := (heap w)(toolset := (heap w toolset)\<lparr>Enabled := True\<rparr>),
                   tsg := (tsg w)\<lparr>Toolsets := (Toolsets (tsg w))(name \<mapsto> toolset)\<rparr>\<rparr>)))"

fun EnableToolsets :: "string list \<Rightarrow> World \<Rightarrow> string option \<times> World" where
  "EnableToolsets [] w = (None, w)"
| "EnableToolsets (name # names) w =
     (case EnableToolset name w of
        (Some err, w') \<Rightarrow> (Some err, w')
      | (None, w') \<Rightarrow> EnableToolsets names w')"

section \<open>The dynamic tools (package github, dynamic_tools.go)\<close>

subsection \<open>Results and JSON text\<close>

text \<open>
  \<open>mcp.CallToolResult\<close> as the handlers build it: one text content and the error flag.
  A handler returns a result or a Go error; \<open>Inl\<close> is the error.
\<close>

record CallToolResult =
  Content :: "string list"
  IsError :: bool

definition NewToolResultText :: "string \<Rightarrow> CallToolResult" where
  "NewToolResultText text = \<lparr>Content = [text], IsError = False\<rparr>"

definition NewToolResultError :: "string \<Rightarrow> CallToolResult" where
  "NewToolResultError text = \<lparr>Content = [text], IsError = True\<rparr>"

text \<open>
  \<open>json.Marshal\<close> of a Go map with string keys: \<open>null\<close> for the nil map, otherwise the
  members in ascending byte order of their keys, separated by commas, between braces. How
  a string is quoted and escaped is the library's business and is the parameter \<open>quote\<close>;
  \<open>enc\<close> writes a value. The maps that the handlers marshal are built with \<open>make\<close> and
  filled by assignment, so they are association lists with each key once, and
  \<open>AList.update\<close> is the assignment \<open>m[k] = v\<close>.
\<close>

fun joinComma :: "string list \<Rightarrow> string" where
  "joinComma [] = []"
| "joinComma [x] = x"
| "joinComma (x # y # ys) = x @ '','' @ joinComma (y # ys)"

definition json_object :: "(string \<times> string) list \<Rightarrow> string" where
  "json_object members = ''{'' @ joinComma (map (\<lambda>(k, v). k @ '':'' @ v) members) @ ''}''"

definition json_bool :: "bool \<Rightarrow> string" where
  "json_bool b = (if b then ''true'' else ''false'')"

definition json_Marshal ::
    "(string \<Rightarrow> string) \<Rightarrow> ('v \<Rightarrow> string) \<Rightarrow> (string \<times> 'v) list option \<Rightarrow> string + string" where
  "json_Marshal quote enc m =
     (case m of
        None \<Rightarrow> Inr ''null''
      | Some al \<Rightarrow> Inr (json_object (map (\<lambda>(k, v). (quote k, enc v)) (sort_key fst al))))"

subsection \<open>The three handlers\<close>

text \<open>
  \<open>requiredParam\<close> is defined elsewhere in package github; the handlers take it as a
  parameter: from the request and a parameter name it yields the string argument, or an
  error. The order in which Go ranges over a map is not specified; ListAvailableToolsets
  takes the order of the keys as the parameter \<open>order\<close>.
\<close>

definition EnableToolset_handler ::
    "('req \<Rightarrow> string \<Rightarrow> string + string) \<Rightarrow> 'req \<Rightarrow> World \<Rightarrow> (string + CallToolResult) \<times> World"
  where
  "EnableToolset_handler requiredParam request w =
     (case requiredParam request ''toolset'' of
        Inl err \<Rightarrow> (Inr (NewToolResultError err), w)
      | Inr toolsetName \<Rightarrow>
          (case Toolsets (tsg w) toolsetName of
             None \<Rightarrow>
               (Inr (NewToolResultError (''Toolset '' @ toolsetName @ '' not found'')), w)
           | Some toolset \<Rightarrow>
               if Enabled (heap w toolset)
               then (Inr (NewToolResultText
                            (''Toolset '' @ toolsetName @ '' is already enabled'')), w)
               else
                 let w1 = w\<lparr>heap := (heap w)(toolset := (heap w toolset)\<lparr>Enabled := True\<rparr>)\<rparr>;
                     w2 = w1\<lparr>mcpServer :=
                              AddTools (GetActiveTools (heap w1 toolset)) (mcpServer w1)\<rparr>
                 in (Inr (NewToolResultText (''Toolset '' @ toolsetName @ '' enabled'')), w2)))"

definition ListAvailableToolsets_handler ::
    "(string \<Rightarrow> string) \<Rightarrow> string list \<Rightarrow> 'req \<Rightarrow> World \<Rightarrow> string + CallToolResult" where
  "ListAvailableToolsets_handler quote order request w =
     (let featureMap = fold (\<lambda>name. AList.update name (IsEnabled w name)) order []
      in (case json_Marshal quote json_bool (Some featureMap) of
            Inl err \<Rightarrow> Inl (''failed to marshal features: '' @ err)
          | Inr r \<Rightarrow> Inr (NewToolResultText r)))"


section \<open>Building the group at startup (package github, InitToolsets)\<close>

text \<open>
  The descriptors of the three dynamic tools, as their constructors build them: the name,
  and the description that the translation helper \<open>t\<close> gives for a key and a default.
\<close>

definition ListAvailableToolsets_tool :: "(string \<Rightarrow> string \<Rightarrow> string) \<Rightarrow> ServerTool" where
  "ListAvailableToolsets_tool t =
     NewServerTool
       \<lparr>Tool.Name = ''list_available_toolsets'',
        Description = t ''TOOL_LIST_AVAILABLE_FEATURES_DESCRIPTION''
          ''List all available toolsets this GitHub MCP server can offer, providing the enabled status of each. Use this when you think a task could be achieved with a GitHub product, but you don't think the currently available tools could achieve it''\<rparr>
       (ToolHandlerFunc ''ListAvailableToolsets'')"

definition GetToolsetsTools_tool :: "(string \<Rightarrow> string \<Rightarrow> string) \<Rightarrow> ServerTool" where
  "GetToolsetsTools_tool t =
     NewServerTool
       \<lparr>Tool.Name = ''get_toolset_tools'',
        Description = t ''TOOL_GET_TOOLSET_TOOLS_DESCRIPTION''
          ''Lists all the capabilities that are enabled when you enabled a toolset, use this to get clarity on whether enabling a toolset would help you to complete a task''\<rparr>
       (ToolHandlerFunc ''GetToolsetsTools'')"

definition EnableToolset_tool :: "(string \<Rightarrow> string \<Rightarrow> string) \<Rightarrow> ServerTool" where
  "EnableToolset_tool t =
     NewServerTool
       \<lparr>Tool.Name = ''enable_toolset'',
        Description = t ''TOOL_ENABLE_TOOLSET_DESCRIPTION''
          ''Enable one of the sets of tools the GitHub MCP server provides, to access the tools and accomplish your goals''\<rparr>
       (ToolHandlerFunc ''EnableToolset'')"

text \<open>
  The constructors of the domain tools and resources (GetMe, SearchRepositories, ...)
  are defined elsewhere in package github. \<open>tool\<close> and \<open>res\<close> give, for the name of a
  constructor, the pair it returns for the client factory and the translation helper of
  the call. The eight toolsets of InitToolsets follow, each as the value of the object
  that the chain of calls starting at NewToolset builds before anything else can reach it.
\<close>

definition new_contextTools :: "(string \<Rightarrow> ServerTool) \<Rightarrow> Toolset" where
  "new_contextTools tool =
     AddReadTools [tool ''GetMe'']
       (NewToolset ''context''
          ''Tools that provide context about the current user and GitHub context you are operating in'')"

definition new_repos :: "(string \<Rightarrow> ServerTool) \<Rightarrow> (string \<Rightarrow> ResourceTemplate) \<Rightarrow> Toolset" where
  "new_repos tool res =
     AddWriteTools
       [tool ''CreateOrUpdateFile'', tool ''CreateRepository'', tool ''ForkRepository'',
        tool ''CreateBranch'', tool ''PushFiles'']
       (AddReadTools
          [tool ''SearchRepositories'', tool ''GetFileContents'', tool ''ListCommits'']
          (AddTemplateResources
             [res ''GetRepositoryResourceContent'',
              res ''GetRepositoryResourceBranchContent'',
              res ''GetRepositoryResourceCommitContent'',
              res ''GetRepositoryResourceTagContent'',
              res ''GetRepositoryResourcePrContent'']
             (NewToolset ''repos'' ''GitHub Repository related tools'')))"

definition new_issues :: "(string \<Rightarrow> ServerTool) \<Rightarrow> Toolset" where
  "new_issues tool =
     AddWriteTools [tool ''CreateIssue'', tool ''AddIssueComment'', tool ''UpdateIssue'']
       (AddReadTools
          [tool ''GetIssue'', tool ''SearchIssues'', tool ''ListIssues'',
           tool ''GetIssueComments'']
          (NewToolset ''issues'' ''GitHub Issues related tools''))"

definition new_search :: "(string \<Rightarrow> ServerTool) \<Rightarrow> Toolset" where
  "new_search tool =
     AddReadTools [tool ''SearchCode'', tool ''SearchUsers'']
       (NewToolset ''search'' ''GitHub Search related tools'')"

definition new_pullRequests :: "(string \<Rightarrow> ServerTool) \<Rightarrow> Toolset" where
  "new_pullRequests tool =
     AddWriteTools
       [tool ''MergePullRequest'', tool ''UpdatePullRequestBranch'',
        tool ''CreatePullRequestReview'', tool ''CreatePullRequest'']
       (AddReadTools
          [tool ''GetPullRequest'', tool ''ListPullRequests'', tool ''GetPullRequestFiles'',
           tool ''GetPullRequestStatus'', tool ''GetPullRequestComments'',
           tool ''GetPullRequestReviews'']
          (NewToolset ''pull_requests'' ''GitHub Pull Request related tools''))"

definition new_codeSecurity :: "(string \<Rightarrow> ServerTool) \<Rightarrow> Toolset" where
  "new_codeSecurity tool =
     AddReadTools [tool ''GetCodeScanningAlert'', tool ''ListCodeScanningAlerts'']
       (NewToolset ''code_security''
          ''Code security related tools, such as GitHub Code Scanning'')"

definition new_experiments :: Toolset where
  "new_experiments =
     NewToolset ''experiments'' ''Experimental features that are not considered stable yet''"

definition new_dynamicToolSelection :: "(string \<Rightarrow> string \<Rightarrow> string) \<Rightarrow> Toolset" where
  "new_dynamicToolSelection t =
     AddReadTools [ListAvailableToolsets_tool t, GetToolsetsTools_tool t, EnableToolset_tool t]
       (NewToolset ''dynamic''
          ''Discover GitHub MCP tools that can help achieve tasks by enabling additional sets of tools, you can control the enablement of any toolset to access its tools when this toolset is enabled.'')"

text \<open>
  InitToolsets in two parts: the group as it stands before the requested toolsets are
  enabled (the function up to the last AddToolset), and the whole function, which enables
  them and returns the group, or the error of EnableToolsets and no group (\<open>Inl\<close>).
\<close>

definition InitToolsets_group ::
    "(string \<Rightarrow> string \<Rightarrow> string) \<Rightarrow> (string \<Rightarrow> ServerTool) \<Rightarrow> (string \<Rightarrow> ResourceTemplate)
      \<Rightarrow> bool \<Rightarrow> World \<Rightarrow> World" where
  "InitToolsets_group t tool res ro w0 =
     (let w1 = w0\<lparr>tsg := NewToolsetGroup ro\<rparr>;
          (contextTools, w2) = newObject (new_contextTools tool) w1;
          (repos, w3) = newObject (new_repos tool res) w2;
          (issues, w4) = newObject (new_issues tool) w3;
          (search, w5) = newObject (new_search tool) w4;
          (pullRequests, w6) = newObject (new_pullRequests tool) w5;
          (codeSecurity, w7) = newObject (new_codeSecurity tool) w6;
          (experiments, w8) = newObject new_experiments w7;
          w9 = AddToolset contextTools w8;
          w10 = AddToolset repos w9;
          w11 = AddToolset issues w10;
          w12 = AddToolset search w11;
          w13 = AddToolset pullRequests w12;
          w14 = AddToolset codeSecurity w13;
          w15 = AddToolset experiments w14;
          (dynamicToolSelection, w16) = newObject (new_dynamicToolSelection t) w15
      in AddToolset dynamicToolSelection w16)"

definition InitToolsets ::
    "(string \<Rightarrow> string \<Rightarrow> string) \<Rightarrow> (string \<Rightarrow> ServerTool) \<Rightarrow> (string \<Rightarrow> ResourceTemplate)
      \<Rightarrow> string list \<Rightarrow> bool \<Rightarrow> World \<Rightarrow> string + World" where
  "InitToolsets t tool res passedToolsets ro w0 =
     (case EnableToolsets passedToolsets (InitToolsets_group t tool res ro w0) of
        (Some err, _) \<Rightarrow> Inl err
      | (None, w') \<Rightarrow> Inr w')"

section \<open>What the host server has been asked to register\<close>

text \<open>
  The tools that one call hands to the server, and the identifiers that a sequence of
  calls has registered, in order and with repetitions.
\<close>

definition toolsOf :: "ServerCall \<Rightarrow> ServerTool list" where
  "toolsOf c =
     (case c of
        CallAddTool tool h \<Rightarrow> [NewServerTool tool h]
      | CallAddTools tools \<Rightarrow> tools
      | CallAddResourceTemplate tr h \<Rightarrow> [])"

definition registeredNames :: "MCPServer \<Rightarrow> string list" where
  "registeredNames s = concat (map (\<lambda>c. map (\<lambda>st. Tool.Name (Tool st)) (toolsOf c)) s)"

section \<open>Sample values\<close>

text \<open>
  Modelled from the spec: \<open>requiredParam\<close> is not among the sources. The spec says that a
  missing required input is signalled before the toolset lookup, and the tests expect the
  message below. This instance reads the arguments of a request given as a map from
  parameter names to strings; it stands for the parameter of the handlers where a
  concrete request is evaluated.
\<close>

definition requiredParam_args :: "(string \<rightharpoonup> string) \<Rightarrow> string \<Rightarrow> string + string" where
  "requiredParam_args request p =
     (case request p of
        None \<Rightarrow> Inl (''missing required parameter: '' @ p)
      | Some v \<Rightarrow> Inr v)"

text \<open>The quoting of a string in which JSON escapes nothing: the string between double
  quotes. The translation helper that returns the default, and constructors that name
  their tool after themselves, stand for the parameters of InitToolsets.\<close>

definition quotePlain :: "string \<Rightarrow> string" where
  "quotePlain s = CHR 0x22 # s @ [CHR 0x22]"

definition NullTranslationHelper :: "string \<Rightarrow> string \<Rightarrow> string" where
  "NullTranslationHelper key defaultValue = defaultValue"

definition sampleTool :: "string \<Rightarrow> ServerTool" where
  "sampleTool c = NewServerTool \<lparr>Tool.Name = c, Description = c\<rparr> (ToolHandlerFunc c)"

definition sampleResource :: "string \<Rightarrow> ResourceTemplate" where
  "sampleResource c = NewResourceTemplate (mcpResourceTemplate c) (ResourceTemplateHandlerFunc c)"

definition search_repositories :: ServerTool where
  "search_repositories =
     NewServerTool \<lparr>Tool.Name = ''search_repositories'', Description = ''Search repositories''\<rparr>
       (ToolHandlerFunc ''SearchRepositories'')"

definition create_repository :: ServerTool where
  "create_repository =
     NewServerTool \<lparr>Tool.Name = ''create_repository'', Description = ''Create repository''\<rparr>
       (ToolHandlerFunc ''CreateRepository'')"

definition repository_content :: ResourceTemplate where
  "repository_content =
     NewResourceTemplate (mcpResourceTemplate ''repo://{owner}/{repo}/contents{/path*}'')
       (ResourceTemplateHandlerFunc ''RepositoryResourceContentsHandler'')"

text \<open>An empty process state around a new group, and the group of the spec's scenario:
  one toolset \<open>repos\<close>, not enabled, with the single read tool \<open>search_repositories\<close>.\<close>

definition emptyWorld :: "bool \<Rightarrow> World" where
  "emptyWorld ro =
     \<lparr>heap = (\<lambda>_. NewToolset [] []), nextRef = 0, tsg = NewToolsetGroup ro, mcpServer = []\<rparr>"

definition reposWorld :: World where
  "reposWorld =
     (let (repos, w) = newObject (AddReadTools [search_repositories]
                                   (NewToolset ''repos'' ''GitHub Repository related tools''))
                         (emptyWorld False)
      in AddToolset repos w)"

text \<open>A group whose toolset \<open>repos\<close>, not enabled and not read-only, holds the tool
  \<open>search_repositories\<close> both as a read tool and as a write tool.\<close>

definition sameNameWorld :: World where
  "sameNameWorld =
     (let (repos, w) = newObject (AddWriteTools [search_repositories]
                                   (AddReadTools [search_repositories]
                                     (NewToolset ''repos'' ''GitHub Repository related tools'')))
                         (emptyWorld False)
      in AddToolset repos w)"

section \<open>Properties of Toolset\<close>

lemma fold_AddTool:
  "fold (\<lambda>tool. AddTool (Tool tool) (Handler tool)) ts s =
     s @ map (\<lambda>tool. CallAddTool (Tool tool) (Handler tool)) ts"
  by (induction ts arbitrary: s) (simp_all add: AddTool_def)

lemma fold_AddResourceTemplate:
  "fold (\<lambda>r. AddResourceTemplate (templateResource r) (handler r)) rs s =
     s @ map (\<lambda>r. CallAddResourceTemplate (templateResource r) (handler r)) rs"
  by (induction rs arbitrary: s) (simp_all add: AddResourceTemplate_def)

lemma applyOp_readOnly_frame:
  "Toolset.readOnly t \<Longrightarrow>
     Toolset.readOnly (applyOp op t) \<and> writeTools (applyOp op t) = writeTools t"
  by (cases op)
     (simp_all add: SetReadOnly_def AddWriteTools_def AddReadTools_def AddTemplateResources_def)

lemma fold_applyOp_readOnly_frame:
  "Toolset.readOnly t \<Longrightarrow>
     Toolset.readOnly (fold applyOp ops t) \<and> writeTools (fold applyOp ops t) = writeTools t"
proof (induction ops arbitrary: t)
  case Nil
  then show ?case by simp
next
  case (Cons op ops)
  from Cons.prems have step:
    "Toolset.readOnly (applyOp op t)" "writeTools (applyOp op t) = writeTools t"
    using applyOp_readOnly_frame by blast+
  from Cons.IH [OF step(1)] step(2) show ?case by simp
qed

section \<open>Properties of ToolsetGroup\<close>

lemma AddToolset_tsg:
  "tsg (AddToolset ts w) =
     (tsg w)\<lparr>Toolsets := (Toolsets (tsg w))(Toolset.Name (heap w ts) \<mapsto> ts)\<rparr>"
  by (simp add: AddToolset_def SetReadOnly_def)

lemma AddToolset_Name:
  "Toolset.Name (heap (AddToolset ts w) r) = Toolset.Name (heap w r)"
  by (simp add: AddToolset_def SetReadOnly_def)

lemma fold_AddToolset_everythingOn:
  "everythingOn (tsg (fold AddToolset tss w)) = everythingOn (tsg w)"
  by (induction tss arbitrary: w) (simp_all add: AddToolset_tsg)

lemma fold_AddToolset_dom:
  "dom (Toolsets (tsg (fold AddToolset tss w))) =
     dom (Toolsets (tsg w)) \<union> (\<lambda>ts. Toolset.Name (heap w ts)) ` set tss"
proof (induction tss arbitrary: w)
  case Nil
  show ?case by simp
next
  case (Cons ts tss)
  have "dom (Toolsets (tsg (fold AddToolset (ts # tss) w))) =
      dom (Toolsets (tsg (AddToolset ts w))) \<union>
        (\<lambda>r. Toolset.Name (heap (AddToolset ts w) r)) ` set tss"
    using Cons.IH [of "AddToolset ts w"] by simp
  also have "\<dots> = insert (Toolset.Name (heap w ts)) (dom (Toolsets (tsg w))) \<union>
        (\<lambda>r. Toolset.Name (heap w r)) ` set tss"
    by (simp add: AddToolset_tsg AddToolset_Name)
  finally show ?case by auto
qed

lemma reposWorld_eval:
  "reposWorld =
     \<lparr>heap = (\<lambda>_. NewToolset [] [])
        (0 := AddReadTools [search_repositories]
                (NewToolset ''repos'' ''GitHub Repository related tools'')),
      nextRef = Suc 0,
      tsg = \<lparr>Toolsets = [''repos'' \<mapsto> 0], everythingOn = False, readOnly = False\<rparr>,
      mcpServer = []\<rparr>"
  by (simp add: reposWorld_def emptyWorld_def newObject_def AddToolset_def NewToolsetGroup_def
        NewToolset_def AddReadTools_def)

lemma sameNameWorld_eval:
  "sameNameWorld =
     \<lparr>heap = (\<lambda>_. NewToolset [] [])
        (0 := AddWriteTools [search_repositories]
                (AddReadTools [search_repositories]
                  (NewToolset ''repos'' ''GitHub Repository related tools''))),
      nextRef = Suc 0,
      tsg = \<lparr>Toolsets = [''repos'' \<mapsto> 0], everythingOn = False, readOnly = False\<rparr>,
      mcpServer = []\<rparr>"
  by (simp add: sameNameWorld_def emptyWorld_def newObject_def AddToolset_def NewToolsetGroup_def
        NewToolset_def AddReadTools_def AddWriteTools_def)

section \<open>Association lists and the JSON text\<close>

lemma fold_update_map_of:
  "map_of (fold (\<lambda>x. AList.update (f x) (g x)) xs al) =
     map_of al ++ map_of (rev (map (\<lambda>x. (f x, g x)) xs))"
proof (induction xs arbitrary: al)
  case Nil
  show ?case by simp
next
  case (Cons x xs)
  show ?case
    by (auto simp: Cons.IH AList.update_conv' fun_eq_iff map_add_def split: option.splits)
qed

lemma fold_update_distinct:
  "distinct (map fst al) \<Longrightarrow> distinct (map fst (fold (\<lambda>x. AList.update (f x) (g x)) xs al))"
  by (induction xs arbitrary: al) (simp_all add: AList.distinct_update)

lemma sort_key_fst_assoc:
  fixes al :: "(string \<times> 'v) list"
  assumes d: "distinct (map fst al)"
  shows "sort_key fst al =
           map (\<lambda>k. (k, the (map_of al k))) (sorted_list_of_set (dom (map_of al)))"
    (is "?xs = ?ys")
proof (rule map_sorted_distinct_set_unique [where f = fst])
  have fin: "finite (dom (map_of al))" by (rule finite_dom_map_of)
  have val: "(k, v) \<in> set al \<Longrightarrow> the (map_of al k) = v" for k v
    using d by simp
  have sety: "set ?ys = set al"
  proof (rule set_eqI)
    fix p :: "string \<times> 'v"
    obtain k v where p: "p = (k, v)" by (cases p)
    show "p \<in> set ?ys \<longleftrightarrow> p \<in> set al"
    proof
      assume "p \<in> set ?ys"
      then have "k \<in> dom (map_of al)" and "v = the (map_of al k)"
        using fin p by auto
      then show "p \<in> set al" using p by (auto dest: map_of_SomeD)
    next
      assume a: "p \<in> set al"
      then have "map_of al k = Some v" using d p by simp
      then show "p \<in> set ?ys" using fin p by (auto simp: image_iff domI)
    qed
  qed
  show "set ?xs = set ?ys" using sety by simp
  have inj: "inj_on fst (set al)" using d by (simp add: distinct_map)
  then show "inj_on fst (set ?xs \<union> set ?ys)" using sety by simp
  show "sorted (map fst ?xs)" by simp
  show "distinct (map fst ?xs)" using d inj by (simp add: distinct_map)
  have "map fst ?ys = sorted_list_of_set (dom (map_of al))"
    by (simp add: comp_def)
  then show "sorted (map fst ?ys)" "distinct (map fst ?ys)" by simp_all
qed

lemma json_Marshal_assoc:
  assumes "distinct (map fst al)"
  shows "json_Marshal quote enc (Some al) =
     Inr (json_object (map (\<lambda>k. (quote k, enc (the (map_of al k))))
            (sorted_list_of_set (dom (map_of al)))))"
  by (simp add: json_Marshal_def sort_key_fst_assoc [OF assms] comp_def)


lemma featureMap_map_of:
  "map_of (fold (\<lambda>name. AList.update name (g name)) order []) =
     (\<lambda>k. if k \<in> set order then Some (g k) else None)"
proof -
  have "map_of (rev (map (\<lambda>x. (x, g x)) order)) k =
      (if k \<in> set order then Some (g k) else None)" for k
    by (induction order) (auto simp: map_add_def split: option.splits)
  then show ?thesis
    by (simp add: fold_update_map_of [where f = "\<lambda>x. x"] fun_eq_iff)
qed

section \<open>Properties of InitToolsets and of the enable handler\<close>

lemma EnableToolset_Toolsets:
  "Toolsets (tsg (snd (EnableToolset name w))) = Toolsets (tsg w)"
  by (simp add: EnableToolset_def fun_upd_idem split: option.splits)

lemma EnableToolsets_Toolsets:
  "Toolsets (tsg (snd (EnableToolsets names w))) = Toolsets (tsg w)"
proof (induction names arbitrary: w)
  case Nil
  show ?case by simp
next
  case (Cons name names)
  obtain e w' where step: "EnableToolset name w = (e, w')" by (cases "EnableToolset name w")
  then have same: "Toolsets (tsg w') = Toolsets (tsg w)"
    using EnableToolset_Toolsets [of name w] by simp
  show ?case
  proof (cases e)
    case None
    with step same Cons.IH [of w'] show ?thesis by simp
  next
    case (Some err)
    with step same show ?thesis by simp
  qed
qed

lemma AddToolset_nextRef: "nextRef (AddToolset ts w) = nextRef w"
  by (simp add: AddToolset_def)

lemma newObject_simps:
  "fst (newObject v w) = nextRef w"
  "nextRef (snd (newObject v w)) = Suc (nextRef w)"
  "tsg (snd (newObject v w)) = tsg w"
  "heap (snd (newObject v w)) = (heap w)(nextRef w := v)"
  by (simp_all add: newObject_def)

lemma Name_simps:
  "Toolset.Name (NewToolset name d) = name"
  "Toolset.Name (AddReadTools ts t) = Toolset.Name t"
  "Toolset.Name (AddWriteTools ts t) = Toolset.Name t"
  "Toolset.Name (AddTemplateResources rs t) = Toolset.Name t"
  by (simp_all add: NewToolset_def AddReadTools_def AddWriteTools_def AddTemplateResources_def)

lemma new_Name:
  "Toolset.Name (new_contextTools tool) = ''context''"
  "Toolset.Name (new_repos tool res) = ''repos''"
  "Toolset.Name (new_issues tool) = ''issues''"
  "Toolset.Name (new_search tool) = ''search''"
  "Toolset.Name (new_pullRequests tool) = ''pull_requests''"
  "Toolset.Name (new_codeSecurity tool) = ''code_security''"
  "Toolset.Name new_experiments = ''experiments''"
  "Toolset.Name (new_dynamicToolSelection t) = ''dynamic''"
  by (simp_all add: new_contextTools_def new_repos_def new_issues_def new_search_def
        new_pullRequests_def new_codeSecurity_def new_experiments_def
        new_dynamicToolSelection_def Name_simps)

lemma InitToolsets_group_Toolsets:
  "Toolsets (tsg (InitToolsets_group t tool res ro w0)) =
    [''context'' \<mapsto> nextRef w0, ''repos'' \<mapsto> Suc (nextRef w0),
     ''issues'' \<mapsto> Suc (Suc (nextRef w0)), ''search'' \<mapsto> Suc (Suc (Suc (nextRef w0))),
     ''pull_requests'' \<mapsto> Suc (Suc (Suc (Suc (nextRef w0)))),
     ''code_security'' \<mapsto> Suc (Suc (Suc (Suc (Suc (nextRef w0))))),
     ''experiments'' \<mapsto> Suc (Suc (Suc (Suc (Suc (Suc (nextRef w0)))))),
     ''dynamic'' \<mapsto> Suc (Suc (Suc (Suc (Suc (Suc (Suc (nextRef w0)))))))]"
  by (simp add: InitToolsets_group_def Let_def split_beta AddToolset_tsg
        AddToolset_Name AddToolset_nextRef newObject_simps new_Name NewToolsetGroup_def)

lemma InitToolsets_group_everythingOn:
  "\<not> everythingOn (tsg (InitToolsets_group t tool res ro w0))"
  by (simp add: InitToolsets_group_def Let_def split_beta AddToolset_tsg
        newObject_simps NewToolsetGroup_def)

lemma AddToolset_Enabled:
  "Enabled (heap (AddToolset ts w) r) = Enabled (heap w r)"
  by (simp add: AddToolset_def SetReadOnly_def)

lemma InitToolsets_group_repos_disabled:
  "\<not> Enabled (heap (InitToolsets_group t tool res ro w0) (Suc (nextRef w0)))"
  by (simp add: InitToolsets_group_def Let_def split_beta AddToolset_Enabled AddToolset_nextRef
        newObject_simps new_repos_def NewToolset_def AddReadTools_def AddWriteTools_def
        AddTemplateResources_def)

lemma EnableToolset_handler_tsg:
  "tsg (snd (EnableToolset_handler requiredParam request w)) = tsg w"
  by (simp add: EnableToolset_handler_def Let_def split: sum.splits option.splits)

lemma fold_EnableToolset_handler_tsg:
  "tsg (fold (\<lambda>req v. snd (EnableToolset_handler requiredParam req v)) reqs w) = tsg w"
  by (induction reqs arbitrary: w) (simp_all add: EnableToolset_handler_tsg)

lemma InitToolsets_Toolsets:
  assumes "InitToolsets t tool res passedToolsets ro w0 = Inr w"
  shows "Toolsets (tsg w) = Toolsets (tsg (InitToolsets_group t tool res ro w0))"
proof -
  from assms have "w = snd (EnableToolsets passedToolsets (InitToolsets_group t tool res ro w0))"
    by (auto simp: InitToolsets_def split: prod.splits option.splits)
  then show ?thesis by (simp add: EnableToolsets_Toolsets)
qed

section \<open>The claims\<close>

text \<open>
  C2. GetActiveTools returns the empty sequence whenever Enabled is false, whatever
  readOnly is; exactly readTools, in order, when Enabled and readOnly are both true; and
  readTools followed by writeTools when Enabled is true and readOnly is false.
\<close>

theorem GetActiveTools_cases:
  "(\<not> Enabled t \<longrightarrow> GetActiveTools t = []) \<and>
   (Enabled t \<and> Toolset.readOnly t \<longrightarrow> GetActiveTools t = readTools t) \<and>
   (Enabled t \<and> \<not> Toolset.readOnly t \<longrightarrow> GetActiveTools t = readTools t @ writeTools t)"
  by (simp add: GetActiveTools_def)

theorem GetActiveTools_cases_witness:
  "GetActiveTools (AddWriteTools [create_repository]
      (AddReadTools [search_repositories] (NewToolset ''repos'' []))) = [] \<and>
   GetActiveTools (SetReadOnly (AddWriteTools [create_repository]
      (AddReadTools [search_repositories] (NewToolset ''repos'' [])))\<lparr>Enabled := True\<rparr>)
     = [search_repositories] \<and>
   GetActiveTools ((AddWriteTools [create_repository]
      (AddReadTools [search_repositories] (NewToolset ''repos'' [])))\<lparr>Enabled := True\<rparr>)
     = [search_repositories, create_repository]"
  using
    GetActiveTools_cases [of "AddWriteTools [create_repository]
      (AddReadTools [search_repositories] (NewToolset ''repos'' []))"]
    GetActiveTools_cases [of "SetReadOnly (AddWriteTools [create_repository]
      (AddReadTools [search_repositories] (NewToolset ''repos'' [])))\<lparr>Enabled := True\<rparr>"]
    GetActiveTools_cases [of "(AddWriteTools [create_repository]
      (AddReadTools [search_repositories] (NewToolset ''repos'' [])))\<lparr>Enabled := True\<rparr>"]
  by (simp add: NewToolset_def AddReadTools_def AddWriteTools_def SetReadOnly_def)

text \<open>
  C9. RegisterTools does nothing to the server when Enabled is false. When Enabled is
  true it makes one AddTool call for every entry of readTools, in order, then (only if
  readOnly is false) one AddTool call for every entry of writeTools, in order, then one
  AddResourceTemplate call for every resource template, in order, whatever readOnly is.
\<close>

theorem RegisterTools_calls:
  "(\<not> Enabled t \<longrightarrow> RegisterTools t s = s) \<and>
   (Enabled t \<longrightarrow>
      RegisterTools t s =
        s @ map (\<lambda>tool. CallAddTool (Tool tool) (Handler tool)) (readTools t)
          @ (if Toolset.readOnly t then []
             else map (\<lambda>tool. CallAddTool (Tool tool) (Handler tool)) (writeTools t))
          @ map (\<lambda>r. CallAddResourceTemplate (templateResource r) (handler r))
              (resourceTemplates t))"
  by (simp add: RegisterTools_def Let_def fold_AddTool fold_AddResourceTemplate)

theorem RegisterTools_calls_witness:
  "RegisterTools (AddTemplateResources [repository_content] (AddWriteTools [create_repository]
      (AddReadTools [search_repositories] (NewToolset ''repos'' [])))) [] = [] \<and>
   RegisterTools ((AddTemplateResources [repository_content] (AddWriteTools [create_repository]
      (AddReadTools [search_repositories] (NewToolset ''repos'' []))))\<lparr>Enabled := True\<rparr>) []
     = [CallAddTool (Tool search_repositories) (Handler search_repositories),
        CallAddTool (Tool create_repository) (Handler create_repository),
        CallAddResourceTemplate (templateResource repository_content)
          (handler repository_content)] \<and>
   RegisterTools (SetReadOnly (AddTemplateResources [repository_content]
      (AddWriteTools [create_repository]
        (AddReadTools [search_repositories] (NewToolset ''repos'' []))))\<lparr>Enabled := True\<rparr>) []
     = [CallAddTool (Tool search_repositories) (Handler search_repositories),
        CallAddResourceTemplate (templateResource repository_content)
          (handler repository_content)]"
  using
    RegisterTools_calls [of "AddTemplateResources [repository_content]
      (AddWriteTools [create_repository]
        (AddReadTools [search_repositories] (NewToolset ''repos'' [])))" "[]"]
    RegisterTools_calls [of "(AddTemplateResources [repository_content]
      (AddWriteTools [create_repository]
        (AddReadTools [search_repositories] (NewToolset ''repos'' []))))\<lparr>Enabled := True\<rparr>" "[]"]
    RegisterTools_calls [of "SetReadOnly (AddTemplateResources [repository_content]
      (AddWriteTools [create_repository]
        (AddReadTools [search_repositories] (NewToolset ''repos'' []))))\<lparr>Enabled := True\<rparr>" "[]"]
  by (simp add: NewToolset_def AddReadTools_def AddWriteTools_def AddTemplateResources_def
        SetReadOnly_def)

text \<open>
  C1, as the spec states it: whenever readOnly is true, writeTools is empty, whatever the
  order of AddWriteTools and SetReadOnly. The code does not empty writeTools in
  SetReadOnly: a toolset that received write tools before it was made read-only (as every
  toolset with write tools does in InitToolsets) is read-only with a non-empty writeTools.
\<close>

theorem readOnly_writeTools_empty_counterexample:
  "Toolset.readOnly
     (SetReadOnly (AddWriteTools [create_repository] (NewToolset ''repos'' []))) \<and>
   writeTools
     (SetReadOnly (AddWriteTools [create_repository] (NewToolset ''repos'' [])))
     = [create_repository]"
  by (simp add: NewToolset_def AddWriteTools_def SetReadOnly_def)

text \<open>
  C1, amended. AddWriteTools on a read-only Toolset changes nothing. Once readOnly is
  true, no sequence of operations on the Toolset changes writeTools or clears readOnly,
  and the tools the Toolset exposes are taken from readTools alone. Hence writeTools stays
  empty for good when SetReadOnly comes before every AddWriteTools; write tools added
  before SetReadOnly stay stored and are never exposed.
\<close>

theorem readOnly_freezes_writeTools:
  "(Toolset.readOnly t \<longrightarrow>
      AddWriteTools tools t = t \<and>
      Toolset.readOnly (fold applyOp ops t) \<and>
      writeTools (fold applyOp ops t) = writeTools t \<and>
      GetAvailableTools (fold applyOp ops t) = readTools (fold applyOp ops t) \<and>
      GetActiveTools (fold applyOp ops t) =
        (if Enabled (fold applyOp ops t) then readTools (fold applyOp ops t) else [])) \<and>
   writeTools (fold applyOp ops (SetReadOnly (NewToolset name description))) = []"
proof -
  have frozen: "Toolset.readOnly (fold applyOp ops u) \<and>
      writeTools (fold applyOp ops u) = writeTools u" if "Toolset.readOnly u" for u
    using that by (rule fold_applyOp_readOnly_frame)
  have "writeTools (fold applyOp ops (SetReadOnly (NewToolset name description))) = []"
    using frozen [of "SetReadOnly (NewToolset name description)"]
    by (simp add: SetReadOnly_def NewToolset_def)
  moreover have "AddWriteTools tools t = t" if "Toolset.readOnly t"
    using that by (simp add: AddWriteTools_def)
  ultimately show ?thesis
    using frozen [of t] by (simp add: GetAvailableTools_def GetActiveTools_def)
qed

theorem readOnly_freezes_writeTools_witness:
  "Toolset.readOnly (SetReadOnly (AddWriteTools [create_repository] (NewToolset ''repos'' [])))
   \<and> AddWriteTools [search_repositories]
       (SetReadOnly (AddWriteTools [create_repository] (NewToolset ''repos'' [])))
     = SetReadOnly (AddWriteTools [create_repository] (NewToolset ''repos'' []))
   \<and> writeTools (fold applyOp
        [OpAddWriteTools [search_repositories], OpAddReadTools [search_repositories],
         OpAssignEnabled True]
        (SetReadOnly (AddWriteTools [create_repository] (NewToolset ''repos'' []))))
     = [create_repository]
   \<and> GetActiveTools (fold applyOp
        [OpAddWriteTools [search_repositories], OpAddReadTools [search_repositories],
         OpAssignEnabled True]
        (SetReadOnly (AddWriteTools [create_repository] (NewToolset ''repos'' []))))
     = [search_repositories]
   \<and> writeTools (fold applyOp
        [OpAddWriteTools [search_repositories], OpAddReadTools [search_repositories],
         OpAssignEnabled True]
        (SetReadOnly (NewToolset ''repos'' [])))
     = []"
  using readOnly_freezes_writeTools
    [of "SetReadOnly (AddWriteTools [create_repository] (NewToolset ''repos'' []))"
        "[search_repositories]"
        "[OpAddWriteTools [search_repositories], OpAddReadTools [search_repositories],
          OpAssignEnabled True]"
        "''repos''" "[]"]
  by (simp add: NewToolset_def AddReadTools_def AddWriteTools_def SetReadOnly_def)

text \<open>
  C4. For a name other than the sentinel "all", ToolsetGroup.EnableToolset fails exactly
  when the name is absent from the mapping; on that failure the error is the not-found
  error and the whole state is as before (keys, every member's flags, everythingOn); if
  the name is present the call succeeds and the named toolset's Enabled flag is true
  afterwards, nothing else having changed.
\<close>

theorem EnableToolset_NotFound_iff:
  "name \<noteq> ''all'' \<Longrightarrow>
     (fst (EnableToolset name w) \<noteq> None \<longleftrightarrow> Toolsets (tsg w) name = None) \<and>
     (Toolsets (tsg w) name = None \<longrightarrow>
        EnableToolset name w = (Some (''toolset '' @ name @ '' does not exist''), w)) \<and>
     (\<forall>toolset. Toolsets (tsg w) name = Some toolset \<longrightarrow>
        EnableToolset name w =
          (None, w\<lparr>heap := (heap w)(toolset := (heap w toolset)\<lparr>Enabled := True\<rparr>)\<rparr>) \<and>
        Enabled (heap (snd (EnableToolset name w)) toolset))"
proof -
  assume n: "name \<noteq> ''all''"
  have same: "(Toolsets (tsg w))(name \<mapsto> r) = Toolsets (tsg w)"
    if "Toolsets (tsg w) name = Some r" for r
    using that by (simp add: fun_upd_idem)
  show ?thesis
  proof (cases "Toolsets (tsg w) name")
    case None
    with n show ?thesis by (simp add: EnableToolset_def)
  next
    case (Some r)
    with n same [OF Some] show ?thesis by (simp add: EnableToolset_def)
  qed
qed

theorem EnableToolset_NotFound_iff_witness:
  "''issues'' \<noteq> ''all'' \<and> ''repos'' \<noteq> ''all'' \<and>
   Toolsets (tsg reposWorld) ''issues'' = None \<and>
   EnableToolset ''issues'' reposWorld = (Some ''toolset issues does not exist'', reposWorld) \<and>
   Toolsets (tsg reposWorld) ''repos'' = Some 0 \<and>
   fst (EnableToolset ''repos'' reposWorld) = None \<and>
   Enabled (heap (snd (EnableToolset ''repos'' reposWorld)) 0) \<and>
   \<not> Enabled (heap reposWorld 0)"
  using EnableToolset_NotFound_iff [of "''issues''" reposWorld]
    EnableToolset_NotFound_iff [of "''repos''" reposWorld]
  by (simp add: reposWorld_eval NewToolset_def AddReadTools_def)

text \<open>
  C5. IsEnabled is true for every name, known or not, whenever everythingOn is true;
  otherwise it is the named toolset's Enabled flag, and false (no error) for a name that
  is absent. EnableToolset "all" succeeds, and after it IsEnabled is true for every name
  whatever toolsets are created and added to the group later.
\<close>

theorem IsEnabled_cases:
  "(everythingOn (tsg w) \<longrightarrow> IsEnabled w name) \<and>
   (\<not> everythingOn (tsg w) \<longrightarrow>
      (Toolsets (tsg w) name = None \<longrightarrow> \<not> IsEnabled w name) \<and>
      (\<forall>ts. Toolsets (tsg w) name = Some ts \<longrightarrow> IsEnabled w name = Enabled (heap w ts))) \<and>
   fst (EnableToolset ''all'' w) = None \<and>
   IsEnabled (fold AddToolset tss ((snd (EnableToolset ''all'' w))\<lparr>heap := h\<rparr>)) name"
  by (simp add: IsEnabled_def EnableToolset_def fold_AddToolset_everythingOn)

theorem IsEnabled_cases_witness:
  "\<not> everythingOn (tsg reposWorld) \<and>
   Toolsets (tsg reposWorld) ''issues'' = None \<and> \<not> IsEnabled reposWorld ''issues'' \<and>
   Toolsets (tsg reposWorld) ''repos'' = Some 0 \<and>
   IsEnabled reposWorld ''repos'' = Enabled (heap reposWorld 0) \<and>
   \<not> IsEnabled reposWorld ''repos'' \<and>
   everythingOn (tsg (snd (EnableToolset ''all'' reposWorld))) \<and>
   IsEnabled (snd (EnableToolset ''all'' reposWorld)) ''repos'' \<and>
   IsEnabled (snd (EnableToolset ''all'' reposWorld)) ''issues'' \<and>
   IsEnabled (fold AddToolset [1]
      ((snd (EnableToolset ''all'' reposWorld))
         \<lparr>heap := (heap reposWorld)(1 := NewToolset ''search'' [])\<rparr>)) ''search''"
  using IsEnabled_cases [of reposWorld "''issues''" "[1]"
      "(heap reposWorld)(1 := NewToolset ''search'' [])"]
    IsEnabled_cases [of reposWorld "''repos''" "[1]"
      "(heap reposWorld)(1 := NewToolset ''search'' [])"]
    IsEnabled_cases [of "snd (EnableToolset ''all'' reposWorld)" "''repos''" "[1]"
      "(heap reposWorld)(1 := NewToolset ''search'' [])"]
    IsEnabled_cases [of "snd (EnableToolset ''all'' reposWorld)" "''issues''" "[1]"
      "(heap reposWorld)(1 := NewToolset ''search'' [])"]
    IsEnabled_cases [of reposWorld "''search''" "[1]"
      "(heap reposWorld)(1 := NewToolset ''search'' [])"]
  by (simp add: reposWorld_eval EnableToolset_def NewToolset_def AddReadTools_def)

text \<open>
  C7, as the spec states it: AddToolset validates that the name is not the reserved
  sentinel, so the key "all" is never in the mapping. AddToolset has no such check: a
  toolset named "all" is stored under the key "all".
\<close>

theorem AddToolset_all_counterexample:
  "Toolset.Name (heap (snd (newObject (NewToolset ''all'' []) (emptyWorld False))) 0) = ''all''
   \<and> Toolsets (tsg (AddToolset (fst (newObject (NewToolset ''all'' []) (emptyWorld False)))
                      (snd (newObject (NewToolset ''all'' []) (emptyWorld False))))) ''all''
     = Some 0"
  by (simp add: newObject_def emptyWorld_def AddToolset_def NewToolset_def NewToolsetGroup_def)

text \<open>
  C7, amended. AddToolset does not look at the name: it stores the toolset under the name
  it has. After any sequence of AddToolset calls the keys of the mapping are the keys it
  had before together with the names of the toolsets added, so "all" is a key afterwards
  exactly when it was one before or one of the added toolsets is named "all". None of the
  toolsets that InitToolsets adds has that name.
\<close>

theorem AddToolset_keys:
  "Toolsets (tsg (AddToolset ts w)) (Toolset.Name (heap w ts)) = Some ts \<and>
   dom (Toolsets (tsg (fold AddToolset tss w))) =
     dom (Toolsets (tsg w)) \<union> (\<lambda>ts. Toolset.Name (heap w ts)) ` set tss \<and>
   (''all'' \<in> dom (Toolsets (tsg (fold AddToolset tss w))) \<longleftrightarrow>
      ''all'' \<in> dom (Toolsets (tsg w)) \<or> ''all'' \<in> (\<lambda>ts. Toolset.Name (heap w ts)) ` set tss) \<and>
   ''all'' \<notin> dom (Toolsets (tsg (InitToolsets_group t tool res ro w0)))"
proof -
  have "''all'' \<notin> dom (Toolsets (tsg (InitToolsets_group t tool res ro w0)))"
    by (simp add: InitToolsets_group_Toolsets)
  then show ?thesis
    by (simp add: AddToolset_tsg fold_AddToolset_dom)
qed

text \<open>
  C8. The list-available-toolsets handler always returns a result that is not flagged as
  an error, never a Go error: the JSON object whose members are the known toolset names,
  each once and no other name, in ascending order, each with its IsEnabled value (true
  for all of them under everythingOn). For a group with no toolsets the text is \<open>{}\<close>.
  This holds for whatever order Go ranges over the map in.
\<close>

theorem ListAvailableToolsets_handler_result:
  assumes keys: "set order = dom (Toolsets (tsg w))"
  shows "ListAvailableToolsets_handler quote order request w =
           Inr (NewToolResultText
             (json_object (map (\<lambda>name. (quote name, json_bool (IsEnabled w name)))
                (sorted_list_of_set (dom (Toolsets (tsg w))))))) \<and>
         (Toolsets (tsg w) = Map.empty \<longrightarrow>
            ListAvailableToolsets_handler quote order request w =
              Inr \<lparr>Content = [''{}''], IsError = False\<rparr>)"
proof -
  let ?fm = "fold (\<lambda>name. AList.update name (IsEnabled w name)) order []"
  have d: "distinct (map fst ?fm)" by (rule fold_update_distinct) simp
  have m: "map_of ?fm = (\<lambda>k. if k \<in> set order then Some (IsEnabled w k) else None)"
    by (rule featureMap_map_of)
  have dm: "dom (map_of ?fm) = dom (Toolsets (tsg w))"
    using keys by (auto simp: m split: if_splits)
  have fin: "finite (dom (Toolsets (tsg w)))" using keys [symmetric] by simp
  have members: "map (\<lambda>k. (quote k, json_bool (the (map_of ?fm k))))
        (sorted_list_of_set (dom (Toolsets (tsg w)))) =
      map (\<lambda>name. (quote name, json_bool (IsEnabled w name)))
        (sorted_list_of_set (dom (Toolsets (tsg w))))"
    using fin keys by (intro map_cong refl) (simp add: m)
  have res: "ListAvailableToolsets_handler quote order request w =
      Inr (NewToolResultText
        (json_object (map (\<lambda>name. (quote name, json_bool (IsEnabled w name)))
           (sorted_list_of_set (dom (Toolsets (tsg w)))))))"
    by (simp add: ListAvailableToolsets_handler_def json_Marshal_assoc [OF d] dm members)
  have "ListAvailableToolsets_handler quote order request w =
      Inr \<lparr>Content = [''{}''], IsError = False\<rparr>" if "Toolsets (tsg w) = Map.empty"
    using that by (simp add: res json_object_def NewToolResultText_def)
  with res show ?thesis by blast
qed

theorem ListAvailableToolsets_handler_result_witness:
  "set [''repos''] = dom (Toolsets (tsg reposWorld)) \<and>
   ListAvailableToolsets_handler quotePlain [''repos''] () reposWorld =
     Inr \<lparr>Content = [''{'' @ quotePlain ''repos'' @ '':false}''], IsError = False\<rparr> \<and>
   ListAvailableToolsets_handler quotePlain [''repos''] ()
       (snd (EnableToolset ''all'' reposWorld)) =
     Inr \<lparr>Content = [''{'' @ quotePlain ''repos'' @ '':true}''], IsError = False\<rparr> \<and>
   set [] = dom (Toolsets (tsg (emptyWorld False))) \<and>
   ListAvailableToolsets_handler quotePlain [] () (emptyWorld False) =
     Inr \<lparr>Content = [''{}''], IsError = False\<rparr>"
  using ListAvailableToolsets_handler_result [of "[''repos'']" reposWorld quotePlain "()"]
    ListAvailableToolsets_handler_result
      [of "[''repos'']" "snd (EnableToolset ''all'' reposWorld)" quotePlain "()"]
    ListAvailableToolsets_handler_result [of "[]" "emptyWorld False" quotePlain "()"]
  by (simp add: reposWorld_eval emptyWorld_def NewToolsetGroup_def EnableToolset_def
        IsEnabled_def NewToolset_def AddReadTools_def json_object_def json_bool_def
        NewToolResultText_def)

text \<open>
  C3, as the spec states it: calling the enable-toolset handler twice on a known toolset
  gives "enabled" then "already enabled", the active tools are pushed once, and so the
  two calls register no duplicate identifiers. The handler pushes whatever GetActiveTools
  returns and removes nothing from it: for a toolset that holds the same identifier as a
  read tool and as a write tool, the one AddTools call of the first request registers
  that identifier twice.
\<close>

theorem EnableToolset_handler_duplicates_counterexample:
  "requiredParam_args [''toolset'' \<mapsto> ''repos''] ''toolset'' = Inr ''repos'' \<and>
   Toolsets (tsg sameNameWorld) ''repos'' = Some 0 \<and>
   \<not> Enabled (heap sameNameWorld 0) \<and>
   registeredNames (mcpServer sameNameWorld) = [] \<and>
   fst (EnableToolset_handler requiredParam_args [''toolset'' \<mapsto> ''repos''] sameNameWorld) =
     Inr \<lparr>Content = [''Toolset repos enabled''], IsError = False\<rparr> \<and>
   fst (EnableToolset_handler requiredParam_args [''toolset'' \<mapsto> ''repos'']
          (snd (EnableToolset_handler requiredParam_args [''toolset'' \<mapsto> ''repos'']
                  sameNameWorld))) =
     Inr \<lparr>Content = [''Toolset repos is already enabled''], IsError = False\<rparr> \<and>
   registeredNames (mcpServer
       (snd (EnableToolset_handler requiredParam_args [''toolset'' \<mapsto> ''repos'']
          (snd (EnableToolset_handler requiredParam_args [''toolset'' \<mapsto> ''repos'']
                  sameNameWorld))))) =
     [''search_repositories'', ''search_repositories''] \<and>
   \<not> distinct (registeredNames (mcpServer
       (snd (EnableToolset_handler requiredParam_args [''toolset'' \<mapsto> ''repos'']
          (snd (EnableToolset_handler requiredParam_args [''toolset'' \<mapsto> ''repos'']
                  sameNameWorld))))))"
  by (simp add: sameNameWorld_eval requiredParam_args_def EnableToolset_handler_def Let_def
        NewToolset_def AddReadTools_def AddWriteTools_def AddTools_def GetActiveTools_def
        NewToolResultText_def registeredNames_def toolsOf_def search_repositories_def
        NewServerTool_def)

text \<open>
  C3, amended. For a known toolset name, the enable-toolset handler on a toolset that is
  already enabled returns "Toolset <name> is already enabled" and leaves the state and
  the server as they were. Called twice on a toolset that is not yet enabled, it answers
  "Toolset <name> enabled", then "Toolset <name> is already enabled"; the second call
  changes nothing, and across the two calls the server receives a single AddTools call,
  carrying the toolset's active tools. The identifiers that the two calls register are
  therefore those of the active tools, one for each tool: the second call adds no
  duplicate, and the identifiers registered are free of duplicates exactly when the
  active tools of the toolset have identifiers that differ from one another.
\<close>

theorem EnableToolset_handler_twice:
  assumes p: "requiredParam request ''toolset'' = Inr name"
    and k: "Toolsets (tsg w) name = Some ts"
  shows
    "(Enabled (heap w ts) \<longrightarrow>
        EnableToolset_handler requiredParam request w =
          (Inr (NewToolResultText (''Toolset '' @ name @ '' is already enabled'')), w)) \<and>
     (\<not> Enabled (heap w ts) \<longrightarrow>
        (let (r1, w1) = EnableToolset_handler requiredParam request w;
             (r2, w2) = EnableToolset_handler requiredParam request w1
         in r1 = Inr (NewToolResultText (''Toolset '' @ name @ '' enabled'')) \<and>
            r2 = Inr (NewToolResultText (''Toolset '' @ name @ '' is already enabled'')) \<and>
            w1 = w\<lparr>heap := (heap w)(ts := (heap w ts)\<lparr>Enabled := True\<rparr>),
                   mcpServer := mcpServer w @
                     [CallAddTools (GetActiveTools ((heap w ts)\<lparr>Enabled := True\<rparr>))]\<rparr> \<and>
            w2 = w1 \<and>
            registeredNames (mcpServer w2) =
              registeredNames (mcpServer w) @
                map (\<lambda>st. Tool.Name (Tool st)) (GetActiveTools (heap w2 ts)) \<and>
            registeredNames (mcpServer w2) = registeredNames (mcpServer w1) \<and>
            distinct (drop (length (registeredNames (mcpServer w)))
                        (registeredNames (mcpServer w2))) =
              distinct (map (\<lambda>st. Tool.Name (Tool st)) (GetActiveTools (heap w2 ts)))))"
  using p k
  by (simp add: EnableToolset_handler_def Let_def AddTools_def registeredNames_def toolsOf_def)

theorem EnableToolset_handler_twice_witness:
  "requiredParam_args [''toolset'' \<mapsto> ''repos''] ''toolset'' = Inr ''repos'' \<and>
   Toolsets (tsg reposWorld) ''repos'' = Some 0 \<and> \<not> Enabled (heap reposWorld 0) \<and>
   fst (EnableToolset_handler requiredParam_args [''toolset'' \<mapsto> ''repos''] reposWorld) =
     Inr \<lparr>Content = [''Toolset repos enabled''], IsError = False\<rparr> \<and>
   mcpServer (snd (EnableToolset_handler requiredParam_args [''toolset'' \<mapsto> ''repos'']
                     reposWorld)) = [CallAddTools [search_repositories]] \<and>
   Enabled (heap (snd (EnableToolset_handler requiredParam_args [''toolset'' \<mapsto> ''repos'']
                     reposWorld)) 0) \<and>
   registeredNames (mcpServer
       (snd (EnableToolset_handler requiredParam_args [''toolset'' \<mapsto> ''repos'']
          (snd (EnableToolset_handler requiredParam_args [''toolset'' \<mapsto> ''repos'']
                  reposWorld))))) = [''search_repositories''] \<and>
   EnableToolset_handler requiredParam_args [''toolset'' \<mapsto> ''repos'']
       (snd (EnableToolset_handler requiredParam_args [''toolset'' \<mapsto> ''repos''] reposWorld)) =
     (Inr \<lparr>Content = [''Toolset repos is already enabled''], IsError = False\<rparr>,
      snd (EnableToolset_handler requiredParam_args [''toolset'' \<mapsto> ''repos''] reposWorld))"
  using EnableToolset_handler_twice
      [of requiredParam_args "[''toolset'' \<mapsto> ''repos'']" "''repos''" reposWorld 0]
    EnableToolset_handler_twice
      [of requiredParam_args "[''toolset'' \<mapsto> ''repos'']" "''repos''"
          "snd (EnableToolset_handler requiredParam_args [''toolset'' \<mapsto> ''repos''] reposWorld)"
          0]
  by (simp add: reposWorld_eval requiredParam_args_def EnableToolset_handler_def Let_def
        NewToolset_def AddReadTools_def AddTools_def GetActiveTools_def
        NewToolResultText_def split_beta registeredNames_def toolsOf_def
        search_repositories_def NewServerTool_def)



text \<open>
  C10. The enable-toolset handler never changes the group: the key set of the mapping,
  everythingOn and the group's read-only policy are as before after any number of calls.
  One call changes at most one Toolset object, the one stored under the requested name,
  and only by setting its Enabled flag. The handler has no case for the sentinel "all":
  in a group built by InitToolsets no toolset has that name, so a request for "all"
  returns the error result "Toolset all not found" and changes nothing, whereas
  ToolsetGroup.EnableToolset "all" succeeds and sets everythingOn.
\<close>

theorem EnableToolset_handler_frame:
  "tsg (snd (EnableToolset_handler requiredParam request w)) = tsg w \<and>
   nextRef (snd (EnableToolset_handler requiredParam request w)) = nextRef w \<and>
   (\<forall>r. heap (snd (EnableToolset_handler requiredParam request w)) r \<noteq> heap w r \<longrightarrow>
      (\<exists>name. requiredParam request ''toolset'' = Inr name \<and>
              Toolsets (tsg w) name = Some r \<and>
              heap (snd (EnableToolset_handler requiredParam request w)) r =
                (heap w r)\<lparr>Enabled := True\<rparr>)) \<and>
   tsg (fold (\<lambda>req v. snd (EnableToolset_handler requiredParam req v)) reqs w) = tsg w \<and>
   (InitToolsets t tool res passedToolsets ro w0 = Inr w \<and>
    requiredParam request ''toolset'' = Inr ''all'' \<longrightarrow>
      Toolsets (tsg w) ''all'' = None \<and>
      EnableToolset_handler requiredParam request
          (fold (\<lambda>req v. snd (EnableToolset_handler requiredParam req v)) reqs w) =
        (Inr (NewToolResultError ''Toolset all not found''),
         fold (\<lambda>req v. snd (EnableToolset_handler requiredParam req v)) reqs w)) \<and>
   EnableToolset ''all'' w = (None, w\<lparr>tsg := (tsg w)\<lparr>everythingOn := True\<rparr>\<rparr>)"
proof -
  let ?run = "fold (\<lambda>req v. snd (EnableToolset_handler requiredParam req v)) reqs w"
  have heap_frame: "\<exists>name. requiredParam request ''toolset'' = Inr name \<and>
              Toolsets (tsg w) name = Some r \<and>
              heap (snd (EnableToolset_handler requiredParam request w)) r =
                (heap w r)\<lparr>Enabled := True\<rparr>"
    if "heap (snd (EnableToolset_handler requiredParam request w)) r \<noteq> heap w r" for r
    using that
    by (auto simp: EnableToolset_handler_def Let_def split: sum.splits option.splits if_splits)
  have all: "Toolsets (tsg w) ''all'' = None \<and>
      EnableToolset_handler requiredParam request ?run =
        (Inr (NewToolResultError ''Toolset all not found''), ?run)"
    if i: "InitToolsets t tool res passedToolsets ro w0 = Inr w"
      and p: "requiredParam request ''toolset'' = Inr ''all''"
  proof -
    have absent: "Toolsets (tsg w) ''all'' = None"
      by (simp add: InitToolsets_Toolsets [OF i] InitToolsets_group_Toolsets)
    then have "Toolsets (tsg ?run) ''all'' = None"
      by (simp add: fold_EnableToolset_handler_tsg)
    with p absent show ?thesis by (simp add: EnableToolset_handler_def)
  qed
  have nr: "nextRef (snd (EnableToolset_handler requiredParam request w)) = nextRef w"
    by (simp add: EnableToolset_handler_def Let_def split: sum.splits option.splits)
  show ?thesis
    using heap_frame all nr
    by (simp add: EnableToolset_handler_tsg fold_EnableToolset_handler_tsg EnableToolset_def)
qed

theorem EnableToolset_handler_frame_witness:
  "InitToolsets NullTranslationHelper sampleTool sampleResource [''issues''] False
       (emptyWorld False) =
     Inr (snd (EnableToolsets [''issues'']
            (InitToolsets_group NullTranslationHelper sampleTool sampleResource False
               (emptyWorld False)))) \<and>
   requiredParam_args [''toolset'' \<mapsto> ''all''] ''toolset'' = Inr ''all'' \<and>
   EnableToolset_handler requiredParam_args [''toolset'' \<mapsto> ''all'']
       (fold (\<lambda>req v. snd (EnableToolset_handler requiredParam_args req v))
          [[''toolset'' \<mapsto> ''repos'']]
          (snd (EnableToolsets [''issues'']
             (InitToolsets_group NullTranslationHelper sampleTool sampleResource False
                (emptyWorld False))))) =
     (Inr \<lparr>Content = [''Toolset all not found''], IsError = True\<rparr>,
      fold (\<lambda>req v. snd (EnableToolset_handler requiredParam_args req v))
          [[''toolset'' \<mapsto> ''repos'']]
          (snd (EnableToolsets [''issues'']
             (InitToolsets_group NullTranslationHelper sampleTool sampleResource False
                (emptyWorld False))))) \<and>
   \<not> everythingOn (tsg (fold (\<lambda>req v. snd (EnableToolset_handler requiredParam_args req v))
          [[''toolset'' \<mapsto> ''repos'']]
          (snd (EnableToolsets [''issues'']
             (InitToolsets_group NullTranslationHelper sampleTool sampleResource False
                (emptyWorld False)))))) \<and>
   Toolsets (tsg (snd (EnableToolsets [''issues'']
             (InitToolsets_group NullTranslationHelper sampleTool sampleResource False
                (emptyWorld False))))) ''repos'' = Some 1 \<and>
   heap (snd (EnableToolset_handler requiredParam_args [''toolset'' \<mapsto> ''repos'']
          (snd (EnableToolsets [''issues'']
             (InitToolsets_group NullTranslationHelper sampleTool sampleResource False
                (emptyWorld False)))))) 1 \<noteq>
     heap (snd (EnableToolsets [''issues'']
             (InitToolsets_group NullTranslationHelper sampleTool sampleResource False
                (emptyWorld False)))) 1 \<and>
   heap (snd (EnableToolset_handler requiredParam_args [''toolset'' \<mapsto> ''repos'']
          (snd (EnableToolsets [''issues'']
             (InitToolsets_group NullTranslationHelper sampleTool sampleResource False
                (emptyWorld False)))))) 1 =
     (heap (snd (EnableToolsets [''issues'']
             (InitToolsets_group NullTranslationHelper sampleTool sampleResource False
                (emptyWorld False)))) 1)\<lparr>Enabled := True\<rparr>"
proof -
  let ?G = "InitToolsets_group NullTranslationHelper sampleTool sampleResource False
      (emptyWorld False)"
  let ?W = "snd (EnableToolsets [''issues''] ?G)"
  let ?W' = "snd (EnableToolset_handler requiredParam_args [''toolset'' \<mapsto> ''repos''] ?W)"
  have init: "InitToolsets NullTranslationHelper sampleTool sampleResource [''issues''] False
      (emptyWorld False) = Inr ?W"
    by (simp add: InitToolsets_def EnableToolset_def InitToolsets_group_Toolsets)
  have p: "requiredParam_args [''toolset'' \<mapsto> ''all''] ''toolset'' = Inr ''all''"
    by (simp add: requiredParam_args_def)
  have off: "\<not> everythingOn (tsg ?W)"
    by (simp add: EnableToolset_def InitToolsets_group_Toolsets InitToolsets_group_everythingOn)
  have repos: "Toolsets (tsg ?W) ''repos'' = Some 1" "\<not> Enabled (heap ?W 1)"
    using InitToolsets_group_repos_disabled
      [of NullTranslationHelper sampleTool sampleResource False "emptyWorld False"]
    by (simp_all add: EnableToolset_def InitToolsets_group_Toolsets emptyWorld_def)
  have "Enabled (heap ?W' 1)"
    using repos by (simp add: EnableToolset_handler_def requiredParam_args_def Let_def)
  with repos(2) have changed: "heap ?W' 1 \<noteq> heap ?W 1" by metis
  have "requiredParam_args [''toolset'' \<mapsto> ''repos''] ''toolset'' = Inr name \<longleftrightarrow>
      name = ''repos''" for name
    by (auto simp: requiredParam_args_def)
  then have after: "heap ?W' 1 = (heap ?W 1)\<lparr>Enabled := True\<rparr>"
    using EnableToolset_handler_frame
      [of requiredParam_args "[''toolset'' \<mapsto> ''repos'']" ?W
          "[]" NullTranslationHelper sampleTool sampleResource
          "[''issues'']" False "emptyWorld False"]
      changed
    by blast
  show ?thesis
    using EnableToolset_handler_frame
      [of requiredParam_args "[''toolset'' \<mapsto> ''all'']" ?W
          "[[''toolset'' \<mapsto> ''repos'']]" NullTranslationHelper sampleTool sampleResource
          "[''issues'']" False "emptyWorld False"]
      init p off repos(1) changed after
    by (simp add: NewToolResultError_def)
qed

end
